theory Spec2Isabelle
  imports Complex_Main
begin

section \<open>Data model of \<^verbatim>\<open>InstRecLib/Track.h\<close>\<close>

text \<open>
  The header declares \<^verbatim>\<open>struct TrackFrame\<close>, \<^verbatim>\<open>enum TrackState\<close> and
  \<^verbatim>\<open>class Track\<close>. The private members of the class end in an underscore
  (\<^verbatim>\<open>frames_\<close>, \<^verbatim>\<open>track_state_\<close>, ...); Isabelle rejects such names, so the
  record fields drop it, and \<^verbatim>\<open>id_\<close> becomes \<open>track_id\<close>.

  Eigen matrices are lists of rows of rationals. No operation of the header computes
  with their entries.
\<close>

type_synonym Matrix4f = "rat list list"
type_synonym Matrix4d = "rat list list"

text \<open>
  Modelled from the spec: \<^verbatim>\<open>InstanceView.h\<close> and \<^verbatim>\<open>InstanceSegmentationResult.h\<close>
  are included by the header only. Section 6 of the specification asks a detection result
  to expose a class label string; \<^verbatim>\<open>GetInstanceDetection().GetClassName()\<close> is the
  only access that \<^verbatim>\<open>Track.h\<close> makes, so the view is the label.
\<close>

record InstanceView =
  class_name :: string

text \<open>
  \<^verbatim>\<open>dynslam::utils::Option<Eigen::Matrix4d> *relative_pose\<close> is a raw pointer to an
  \<^verbatim>\<open>Option\<close> object (\<^verbatim>\<open>Utils.h\<close>). A pointer either refers to an object or it
  does not (it was never assigned, or it is null); reading through one that does not is
  undefined. The \<^verbatim>\<open>Option\<close> object is a HOL \<open>option\<close>, and \<^verbatim>\<open>IsPresent()\<close>
  asks whether it holds a value.
\<close>

datatype 'a pointer = Unset | PointsTo 'a

record TrackFrame =
  frame_idx :: int
  instance_view :: InstanceView
  camera_pose :: Matrix4f
  relative_pose :: "Matrix4d option pointer"

definition IsPresent :: "'a option \<Rightarrow> bool" where
  "IsPresent opt = (case opt of None \<Rightarrow> False | Some _ \<Rightarrow> True)"

datatype TrackState = kStatic | kDynamic | kUncertain

text \<open>
  Modelled from the spec: \<^verbatim>\<open>InfiniTamDriver.h\<close> is included by the header only.
  Section 6 of the specification asks the reconstruction volume handle to support
  \<^verbatim>\<open>reap(weight: integer)\<close>. The volume is the sequence of weights it was reaped
  with, oldest first: this is all a \<^verbatim>\<open>Track\<close> does to it.
\<close>

record InfiniTamDriver =
  reap_calls :: "int list"

text \<open>
  Modelled from the spec: \<^verbatim>\<open>InfiniTamDriver::Reap\<close> is not at hand. The
  \<^verbatim>\<open>reap(weight: integer)\<close> of section 6 adds its weight to the record of the volume.
\<close>

definition Reap :: "int \<Rightarrow> InfiniTamDriver \<Rightarrow> InfiniTamDriver" where
  "Reap max_weight v = v\<lparr>reap_calls := reap_calls v @ [max_weight]\<rparr>"

text \<open>
  The three tuning constants are public, non-static data members with default member
  initialisers, so they are fields. \<^verbatim>\<open>0.20f\<close> is the single-precision number
  \<open>13421773 / 2^26\<close>. \<^verbatim>\<open>std::shared_ptr<InfiniTamDriver> reconstruction_\<close> is
  \<open>None\<close> when it holds \<^verbatim>\<open>nullptr\<close>. \<^verbatim>\<open>last_known_motion_\<close> has no initialiser:
  \<open>None\<close> stands for the matrix that was never assigned.
\<close>

record Track =
  kMaxUncertainFramesStatic :: int
  kMaxUncertainFramesDynamic :: int
  kTransErrorTreshold :: rat
  track_id :: int
  frames :: "TrackFrame list"
  reconstruction :: "InfiniTamDriver option"
  needs_cleanup :: bool
  track_state :: TrackState
  last_known_motion_time :: int
  last_known_motion :: "Matrix4d option"
  fused_frames :: int

text \<open>
  What a call can end in besides a value: a failed \<^verbatim>\<open>assert\<close> (the process aborts
  with a message), or undefined behaviour (\<^verbatim>\<open>back()\<close> or \<^verbatim>\<open>front()\<close> of an empty
  vector, an index out of range, a null handle dereferenced), where the language
  promises nothing.
\<close>

datatype failure = AssertionFailed | UndefinedBehaviour

section \<open>Operations\<close>

text \<open>
  \<^verbatim>\<open>TrackFrame(int frame_idx, const InstanceView& instance_view, const Eigen::Matrix4f
  camera_pose)\<close>: the initialiser list names three of the four members, and
  \<^verbatim>\<open>relative_pose\<close> has no default member initialiser, so the pointer of a new frame
  is unset.
\<close>

definition TrackFrame :: "int \<Rightarrow> InstanceView \<Rightarrow> Matrix4f \<Rightarrow> TrackFrame" where
  "TrackFrame frame_idx0 instance_view0 camera_pose0 =
     \<lparr> frame_idx = frame_idx0, instance_view = instance_view0,
       camera_pose = camera_pose0, relative_pose = Unset \<rparr>"

text \<open>\<^verbatim>\<open>Track(int id)\<close>, with the default member initialisers of the class.\<close>

definition Track :: "int \<Rightarrow> Track" where
  "Track id0 =
     \<lparr> kMaxUncertainFramesStatic = 3,
       kMaxUncertainFramesDynamic = 2,
       kTransErrorTreshold = 13421773 / 67108864,
       track_id = id0,
       frames = [],
       reconstruction = None,
       needs_cleanup = False,
       track_state = kUncertain,
       last_known_motion_time = - 1,
       last_known_motion = None,
       fused_frames = 0 \<rparr>"

text \<open>\<^verbatim>\<open>void AddFrame(const TrackFrame& new_frame) { frames_.push_back(new_frame); }\<close>\<close>

definition AddFrame :: "TrackFrame \<Rightarrow> Track \<Rightarrow> Track" where
  "AddFrame new_frame t = t\<lparr>frames := frames t @ [new_frame]\<rparr>"

definition GetSize :: "Track \<Rightarrow> nat" where
  "GetSize t = length (frames t)"

text \<open>\<^verbatim>\<open>frames_.back()\<close> and \<^verbatim>\<open>frames_.front()\<close> are undefined on an empty vector.\<close>

definition GetLastFrame :: "Track \<Rightarrow> failure + TrackFrame" where
  "GetLastFrame t = (if frames t = [] then Inl UndefinedBehaviour else Inr (last (frames t)))"

definition GetStartTime :: "Track \<Rightarrow> failure + int" where
  "GetStartTime t =
     (if frames t = [] then Inl UndefinedBehaviour else Inr (frame_idx (hd (frames t))))"

definition GetEndTime :: "Track \<Rightarrow> failure + int" where
  "GetEndTime t =
     (if frames t = [] then Inl UndefinedBehaviour else Inr (frame_idx (last (frames t))))"

definition GetFrames :: "Track \<Rightarrow> TrackFrame list" where
  "GetFrames t = frames t"

text \<open>
  \<^verbatim>\<open>frames_[i]\<close> with \<^verbatim>\<open>int i\<close>: the index is converted to \<^verbatim>\<open>size_t\<close>, so a
  negative one is out of range like one that is too large.
\<close>

definition GetFrame :: "Track \<Rightarrow> int \<Rightarrow> failure + TrackFrame" where
  "GetFrame t i =
     (if 0 \<le> i \<and> nat i < length (frames t) then Inr (frames t ! nat i)
      else Inl UndefinedBehaviour)"

definition GetId :: "Track \<Rightarrow> int" where
  "GetId t = track_id t"

definition HasReconstruction :: "Track \<Rightarrow> bool" where
  "HasReconstruction t = (reconstruction t \<noteq> None)"

definition EligibleForReconstruction :: "Track \<Rightarrow> bool" where
  "EligibleForReconstruction t = (GetSize t \<ge> 6)"

definition NeedsCleanup :: "Track \<Rightarrow> bool" where
  "NeedsCleanup t = needs_cleanup t"

definition SetNeedsCleanup :: "bool \<Rightarrow> Track \<Rightarrow> Track" where
  "SetNeedsCleanup b t = t\<lparr>needs_cleanup := b\<rparr>"

definition GetState :: "Track \<Rightarrow> TrackState" where
  "GetState t = track_state t"

text \<open>
  \<^verbatim>\<open>GetClassName\<close> starts with
  \<^verbatim>\<open>assert(frames_.size() > 0 || "Need at least one frame to determine a track's class.")\<close>.
  The right operand of \<^verbatim>\<open>||\<close> is a string literal: an array that decays to a pointer
  to its first character, which is never null and so converts to \<^verbatim>\<open>true\<close>, whatever
  the text. With \<^verbatim>\<open>NDEBUG\<close> defined the assertion is compiled out, and the
  function is its second statement alone; the model is the build that keeps assertions.
\<close>

definition string_literal_to_bool :: "string \<Rightarrow> bool" where
  "string_literal_to_bool s = True"

definition GetClassName :: "Track \<Rightarrow> failure + string" where
  "GetClassName t =
     (if \<not> (GetSize t > 0
            \<or> string_literal_to_bool ''Need at least one frame to determine a track's class.'')
      then Inl AssertionFailed
      else (case GetLastFrame t of
              Inl e \<Rightarrow> Inl e
            | Inr f \<Rightarrow> Inr (class_name (instance_view f))))"





text \<open>
  \<^verbatim>\<open>static_cast<int>\<close> of a \<^verbatim>\<open>double\<close> drops the fractional part: it rounds
  towards zero. (A value outside the range of \<^verbatim>\<open>int\<close> would be undefined; a third of
  a 32-bit counter is inside it.)
\<close>

definition double_to_int :: "rat \<Rightarrow> int" where
  "double_to_int x = (if 0 \<le> x then \<lfloor>x\<rfloor> else \<lceil>x\<rceil>)"

text \<open>The literal \<^verbatim>\<open>0.33\<close>: the double nearest to 33 hundredths.\<close>

definition double_0_33 :: rat where
  "double_0_33 = 5944751508129055 / 18014398509481984"

text \<open>
  \<^verbatim>\<open>ReapReconstruction\<close> computes the weight, prints it, and calls \<^verbatim>\<open>Reap\<close>
  through the handle. The handle is not tested: when it is null, \<^verbatim>\<open>operator->\<close>
  yields a null pointer and the member call is undefined. The line written to
  \<^verbatim>\<open>cout\<close> is not part of the model.

  \<^verbatim>\<open>0.33 * fused_frames_\<close> is a \<^verbatim>\<open>double\<close> product: the counter is converted
  exactly, the literal is the double \<open>double_0_33\<close>, and the product is rounded to a
  double, which moves it by at most one part in \<open>2^53\<close>. The model takes the exact
  product of \<open>33 / 100\<close> and the counter instead. Lemma \<open>reap_weight_stable\<close> below
  shows that no number closer than a hundredth to that product changes the weight, and
  lemma \<open>reap_weight_of_double\<close> that the rounded product of the double literal and a
  32-bit counter is such a number.
\<close>

definition ReapReconstruction :: "Track \<Rightarrow> failure + Track" where
  "ReapReconstruction t =
     (let reap_weight = max 1 (min 5 (double_to_int (33 / 100 * of_int (fused_frames t))))
      in case reconstruction t of
           None \<Rightarrow> Inl UndefinedBehaviour
         | Some v \<Rightarrow> Inr (t\<lparr>reconstruction := Some (Reap reap_weight v)\<rparr>))"

text \<open>
  The weight as the specification words it, \<open>clamp(round(0.33 * fused_frames), 1, 5)\<close>,
  to compare with the one the code computes.
\<close>

definition reap_weight_spec :: "int \<Rightarrow> int" where
  "reap_weight_spec n = max 1 (min 5 (round (33 / 100 * (of_int n :: rat))))"

section \<open>Operations declared in the header and defined elsewhere\<close>

text \<open>
  What \<^verbatim>\<open>Update\<close> learns about the new frame from the scene-flow provider and the
  egomotion: no relative pose, or a relative pose whose translation, once the camera
  motion is removed, has the given magnitude.
\<close>

datatype motion_estimate = Unavailable | Residual rat

text \<open>
  Modelled from the spec: \<^verbatim>\<open>Track::Update\<close> is declared in \<^verbatim>\<open>Track.h\<close>; its body
  is in a source file that is not at hand. Section 4.2 of the specification gives its steps. The
  outcome of steps 1 and 2 is the argument here: the relative pose of the new frame is
  unavailable, or it is available and leaves a residual translation of some magnitude.
  Step 3 is the transition below. From \<open>Uncertain\<close>: a magnitude below the threshold
  moves to \<open>Static\<close>, one above it to \<open>Dynamic\<close>. From \<open>Static\<close>: consecutive frames
  with unavailable pose accumulate the uncertain-frame counter, and exceeding
  \<open>kMaxUncertainFramesStatic\<close> reverts to \<open>Uncertain\<close>; an available pose with
  magnitude above the threshold moves to \<open>Dynamic\<close>. From \<open>Dynamic\<close>: the same with
  \<open>kMaxUncertainFramesDynamic\<close>; an available pose resets the counter and the state
  stays \<open>Dynamic\<close>. The counter is not a member in the header, so it travels beside
  the track. It restarts at 0 when a pose is available (the frames counted are
  consecutive) and keeps its value when the state reverts (``counter 1..4'' in section 8).
  Where the specification is silent (a magnitude equal to the threshold, an unavailable
  pose in \<open>Uncertain\<close>) the state is left as it is.
\<close>

definition Update_spec :: "motion_estimate \<Rightarrow> Track \<times> int \<Rightarrow> Track \<times> int" where
  "Update_spec m tc =
     (case tc of (t, uncertain_frames) \<Rightarrow>
       (case track_state t of
          kUncertain \<Rightarrow>
            (case m of
               Unavailable \<Rightarrow> (t, uncertain_frames)
             | Residual magnitude \<Rightarrow>
                 if magnitude < kTransErrorTreshold t then (t\<lparr>track_state := kStatic\<rparr>, 0)
                 else if magnitude > kTransErrorTreshold t
                   then (t\<lparr>track_state := kDynamic\<rparr>, 0)
                 else (t, uncertain_frames))
        | kStatic \<Rightarrow>
            (case m of
               Unavailable \<Rightarrow>
                 if uncertain_frames + 1 > kMaxUncertainFramesStatic t
                 then (t\<lparr>track_state := kUncertain\<rparr>, uncertain_frames + 1)
                 else (t, uncertain_frames + 1)
             | Residual magnitude \<Rightarrow>
                 if magnitude > kTransErrorTreshold t then (t\<lparr>track_state := kDynamic\<rparr>, 0)
                 else (t, 0))
        | kDynamic \<Rightarrow>
            (case m of
               Unavailable \<Rightarrow>
                 if uncertain_frames + 1 > kMaxUncertainFramesDynamic t
                 then (t\<lparr>track_state := kUncertain\<rparr>, uncertain_frames + 1)
                 else (t, uncertain_frames + 1)
             | Residual magnitude \<Rightarrow> (t, 0))))"

text \<open>A run of updates, one estimate per call, in the order of the list.\<close>

definition Updates_spec :: "motion_estimate list \<Rightarrow> Track \<times> int \<Rightarrow> Track \<times> int" where
  "Updates_spec ms tc = foldl (\<lambda>tc' m. Update_spec m tc') tc ms"

text \<open>
  The two operations of Eigen that composing poses needs: the identity
  (\<^verbatim>\<open>setIdentity\<close>) and the product of two matrices, on rationals.
\<close>

definition identity4 :: "rat list list" where
  "identity4 = [[1, 0, 0, 0], [0, 1, 0, 0], [0, 0, 1, 0], [0, 0, 0, 1]]"

definition mat_mul :: "rat list list \<Rightarrow> rat list list \<Rightarrow> rat list list" where
  "mat_mul a b = map (\<lambda>row. map (\<lambda>col. sum_list (map2 (*) row col)) (transpose b)) a"

text \<open>
  Modelled from the spec: the composition inside \<^verbatim>\<open>Track::GetFramePose\<close>, whose body
  is in a source file that is not at hand. Section 4.4 of the specification: the chain of inter-frame
  relative poses is composed link by link, and the composition short-circuits and returns
  absent at a missing link rather than skipping it. The specification does not fix the
  side on which a link is multiplied (here: on the right).
\<close>

fun compose_chain :: "Matrix4d \<Rightarrow> Matrix4d option list \<Rightarrow> Matrix4d option" where
  "compose_chain pose [] = Some pose"
| "compose_chain pose (None # links) = None"
| "compose_chain pose (Some link # links) = compose_chain (mat_mul pose link) links"

text \<open>
  Modelled from the spec: the relative pose of a frame as section 3 of the specification
  has it, an optional transform that is absent when the relative motion could not be
  estimated. The specification knows no pointer: a frame whose pointer is unset has no
  estimate, and its relative pose is absent.
\<close>

definition known_relative_pose :: "TrackFrame \<Rightarrow> Matrix4d option" where
  "known_relative_pose f = (case relative_pose f of Unset \<Rightarrow> None | PointsTo opt \<Rightarrow> opt)"

text \<open>
  Modelled from the spec: \<^verbatim>\<open>Track::GetFramePose\<close> is declared in \<^verbatim>\<open>Track.h\<close>; its
  body is in a source file that is not at hand. Section 4.4 of the specification: the pose of the given
  frame relative to the first frame of the track, composed from the chain of inter-frame
  relative poses from the first frame up to the requested index; absent if any link of
  the chain is absent. The relative pose of a frame is relative to the previous frame of
  the track, so the links between the first frame and frame \<open>k\<close> are the relative poses
  of frames 1 to \<open>k\<close>. The specification does not say what an index past the last
  frame gives (here: absent).
\<close>

definition GetFramePose_spec :: "Track \<Rightarrow> nat \<Rightarrow> Matrix4d option" where
  "GetFramePose_spec t k =
     (if k < length (frames t)
      then compose_chain identity4 (map known_relative_pose (take k (tl (frames t))))
      else None)"

section \<open>Runs of calls and example data\<close>

text \<open>A run of \<^verbatim>\<open>AddFrame\<close> calls, in the order of the list.\<close>

definition AddFrames :: "TrackFrame list \<Rightarrow> Track \<Rightarrow> Track" where
  "AddFrames fs t = foldl (\<lambda>t' f. AddFrame f t') t fs"

text \<open>
  Example data: an observation of a car at frame \<open>k\<close>, seen from the identity camera
  pose, whose pointer has been set to an \<^verbatim>\<open>Option\<close> object with the given content;
  and the track that \<^verbatim>\<open>Track(7)\<close> becomes when such frames are added to it.
\<close>

definition car_frame :: "int \<Rightarrow> Matrix4d option \<Rightarrow> TrackFrame" where
  "car_frame k rp =
     (TrackFrame k \<lparr> class_name = ''car'' \<rparr> identity4)\<lparr>relative_pose := PointsTo rp\<rparr>"

definition car_track :: "int list \<Rightarrow> Track" where
  "car_track ks = AddFrames (map (\<lambda>k. car_frame k None) ks) (Track 7)"

text \<open>
  The same track with poses: frame \<open>k\<close> of the list is observed at time \<open>k\<close> and
  carries the \<open>k\<close>-th relative pose.
\<close>

definition posed_track :: "Matrix4d option list \<Rightarrow> Track" where
  "posed_track rps =
     AddFrames (map (\<lambda>(k, rp). car_frame (int k) rp) (enumerate 0 rps)) (Track 7)"

text \<open>
  \<^verbatim>\<open>Track(7)\<close> after the driver has stored a volume that was never reaped through
  \<^verbatim>\<open>GetReconstruction()\<close> and has counted \<open>n\<close> fused frames.
\<close>

definition reconstructed_track :: "int \<Rightarrow> Track" where
  "reconstructed_track n =
     (Track 7)\<lparr>reconstruction := Some \<lparr> reap_calls = [] \<rparr>, fused_frames := n\<rparr>"

section \<open>Construction and \<^verbatim>\<open>AddFrame\<close>\<close>

text \<open>
  C9. A freshly constructed track, whatever its id, is in state \<open>kUncertain\<close>, has size
  0, owns no reconstruction and does not need cleanup.
\<close>

theorem fresh_track_state:
  "GetState (Track id0) = kUncertain \<and> GetSize (Track id0) = 0
     \<and> HasReconstruction (Track id0) = False \<and> NeedsCleanup (Track id0) = False"
  by (simp add: Track_def GetState_def GetSize_def HasReconstruction_def NeedsCleanup_def)

lemma frames_AddFrames: "frames (AddFrames fs t) = frames t @ fs"
  unfolding AddFrames_def
  by (induction fs arbitrary: t) (simp_all add: AddFrame_def)

lemma frames_car_track: "frames (car_track ks) = map (\<lambda>k. car_frame k None) ks"
  by (simp add: car_track_def frames_AddFrames Track_def)

lemma frames_posed_track:
  "frames (posed_track rps) = map (\<lambda>(k, rp). car_frame (int k) rp) (enumerate 0 rps)"
  by (simp add: posed_track_def frames_AddFrames Track_def)

text \<open>
  C10. \<^verbatim>\<open>AddFrame(f)\<close> makes the track one frame longer, with \<open>f\<close> as its last
  frame and the frame index of \<open>f\<close> as its end time. The frames stored before are still
  there, at their positions, and every other member of the track (state, reconstruction
  handle, cleanup flag, fused-frame counter, and the rest) is as it was.
\<close>

theorem AddFrame_frame_effect:
  "GetSize (AddFrame f t) = GetSize t + 1
   \<and> GetLastFrame (AddFrame f t) = Inr f
   \<and> GetEndTime (AddFrame f t) = Inr (frame_idx f)
   \<and> take (GetSize t) (GetFrames (AddFrame f t)) = GetFrames t
   \<and> (\<forall>i. 0 \<le> i \<and> nat i < GetSize t \<longrightarrow> GetFrame (AddFrame f t) i = GetFrame t i)
   \<and> GetState (AddFrame f t) = GetState t
   \<and> reconstruction (AddFrame f t) = reconstruction t
   \<and> HasReconstruction (AddFrame f t) = HasReconstruction t
   \<and> NeedsCleanup (AddFrame f t) = NeedsCleanup t
   \<and> fused_frames (AddFrame f t) = fused_frames t
   \<and> (AddFrame f t)\<lparr>frames := frames t\<rparr> = t"
  by (simp add: AddFrame_def GetSize_def GetLastFrame_def GetEndTime_def GetFrames_def
      GetFrame_def GetState_def HasReconstruction_def NeedsCleanup_def nth_append)

theorem AddFrame_frame_effect_witness:
  "GetSize (AddFrame (car_frame 12 None) (car_track [11])) = 2
   \<and> GetLastFrame (AddFrame (car_frame 12 None) (car_track [11])) = Inr (car_frame 12 None)
   \<and> GetEndTime (AddFrame (car_frame 12 None) (car_track [11])) = Inr 12
   \<and> (0::int) \<le> 0 \<and> nat 0 < GetSize (car_track [11])
   \<and> GetFrame (AddFrame (car_frame 12 None) (car_track [11])) 0 = Inr (car_frame 11 None)
   \<and> GetState (AddFrame (car_frame 12 None) (car_track [11])) = kUncertain"
  using AddFrame_frame_effect [of "car_frame 12 None" "car_track [11]"]
  by (simp add: GetSize_def GetFrame_def GetState_def frames_car_track car_track_def
      AddFrames_def AddFrame_def Track_def car_frame_def TrackFrame_def)

text \<open>
  C5. \<^verbatim>\<open>EligibleForReconstruction()\<close> is false below six frames and true from six
  frames on, and two tracks of the same size get the same answer whatever their frames
  hold. It is a \<^verbatim>\<open>const\<close> member function that only reads the size: the model is a
  function from the track to the answer, and returns no track.
\<close>

theorem EligibleForReconstruction_six:
  "(GetSize t < 6 \<longrightarrow> EligibleForReconstruction t = False)
   \<and> (6 \<le> GetSize t \<longrightarrow> EligibleForReconstruction t = True)
   \<and> (\<forall>t'. GetSize t' = GetSize t
          \<longrightarrow> EligibleForReconstruction t' = EligibleForReconstruction t)"
  by (simp add: EligibleForReconstruction_def)

theorem EligibleForReconstruction_six_witness:
  "GetSize (car_track [1, 2, 3, 4, 5]) < 6
   \<and> EligibleForReconstruction (car_track [1, 2, 3, 4, 5]) = False
   \<and> 6 \<le> GetSize (car_track [1, 2, 3, 4, 5, 9])
   \<and> EligibleForReconstruction (car_track [1, 2, 3, 4, 5, 9]) = True
   \<and> GetSize (car_track [3, 1, 4, 1, 5, 9]) = GetSize (car_track [1, 2, 3, 4, 5, 9])
   \<and> EligibleForReconstruction (car_track [3, 1, 4, 1, 5, 9])
       = EligibleForReconstruction (car_track [1, 2, 3, 4, 5, 9])"
proof -
  have five: "GetSize (car_track [1, 2, 3, 4, 5]) < 6"
    by (simp add: GetSize_def frames_car_track)
  have six: "6 \<le> GetSize (car_track [1, 2, 3, 4, 5, 9])"
    by (simp add: GetSize_def frames_car_track)
  have same: "GetSize (car_track [3, 1, 4, 1, 5, 9]) = GetSize (car_track [1, 2, 3, 4, 5, 9])"
    by (simp add: GetSize_def frames_car_track)
  note below = EligibleForReconstruction_six
    [of "car_track [1, 2, 3, 4, 5]", THEN conjunct1, rule_format, OF five]
  note from_six = EligibleForReconstruction_six
    [of "car_track [1, 2, 3, 4, 5, 9]", THEN conjunct2, THEN conjunct1, rule_format, OF six]
  note content = EligibleForReconstruction_six
    [of "car_track [1, 2, 3, 4, 5, 9]", THEN conjunct2, THEN conjunct2, rule_format, OF same]
  show ?thesis
    using five six same below from_six content by blast
qed

section \<open>Start time, end time and the order of the frames\<close>

text \<open>
  \<^verbatim>\<open>AddFrame\<close> appends whatever frame it is given: nothing compares the new frame
  index with the ones stored. The time bounds and the order of the stored indices are
  therefore those of the frames in the order of the calls.
\<close>

lemma sorted_bounds:
  assumes "sorted (map frame_idx fs)" and "f \<in> set fs"
  shows "frame_idx (hd fs) \<le> frame_idx f \<and> frame_idx f \<le> frame_idx (last fs)"
proof -
  from assms(2) obtain i where i: "i < length fs" "fs ! i = f"
    by (auto simp: in_set_conv_nth)
  then have ne: "fs \<noteq> []" by auto
  have "map frame_idx fs ! 0 \<le> map frame_idx fs ! i"
    using assms(1) i(1) by (intro sorted_nth_mono) simp_all
  moreover have "map frame_idx fs ! i \<le> map frame_idx fs ! (length fs - 1)"
    using assms(1) i(1) by (intro sorted_nth_mono) simp_all
  ultimately show ?thesis
    using i ne by (simp add: hd_conv_nth last_conv_nth)
qed

text \<open>
  C4, as the code has it. When the frames come in non-decreasing order of frame index,
  after the frames the track already holds, and the track is not empty afterwards, the
  start time is at most every stored frame index, every stored frame index is at most the
  end time, and the stored indices are non-decreasing in storage order.
\<close>

theorem AddFrames_time_bounds:
  assumes "sorted (map frame_idx (frames t @ fs))" and "frames t @ fs \<noteq> []"
  shows "\<exists>s e. GetStartTime (AddFrames fs t) = Inr s \<and> GetEndTime (AddFrames fs t) = Inr e
           \<and> (\<forall>f \<in> set (GetFrames (AddFrames fs t)). s \<le> frame_idx f \<and> frame_idx f \<le> e)
           \<and> sorted (map frame_idx (GetFrames (AddFrames fs t)))"
  using assms sorted_bounds [OF assms(1)]
  by (simp add: GetStartTime_def GetEndTime_def GetFrames_def frames_AddFrames)

theorem AddFrames_time_bounds_witness:
  "sorted (map frame_idx (frames (Track 7) @ map (\<lambda>k. car_frame k None) [11, 12, 13, 16]))
   \<and> frames (Track 7) @ map (\<lambda>k. car_frame k None) [11, 12, 13, 16] \<noteq> []
   \<and> (\<exists>s e. GetStartTime (car_track [11, 12, 13, 16]) = Inr s
          \<and> GetEndTime (car_track [11, 12, 13, 16]) = Inr e
          \<and> s = 11 \<and> e = 16
          \<and> s \<le> frame_idx (car_frame 13 None) \<and> frame_idx (car_frame 13 None) \<le> e)
   \<and> sorted (map frame_idx (GetFrames (car_track [11, 12, 13, 16])))"
proof -
  have ordered:
    "sorted (map frame_idx (frames (Track 7) @ map (\<lambda>k. car_frame k None) [11, 12, 13, 16]))"
    by (simp add: Track_def car_frame_def TrackFrame_def)
  have nonempty: "frames (Track 7) @ map (\<lambda>k. car_frame k None) [11, 12, 13, 16] \<noteq> []"
    by simp
  from AddFrames_time_bounds [OF ordered nonempty]
  obtain s e where se: "GetStartTime (car_track [11, 12, 13, 16]) = Inr s"
      "GetEndTime (car_track [11, 12, 13, 16]) = Inr e"
      "\<forall>f \<in> set (GetFrames (car_track [11, 12, 13, 16])). s \<le> frame_idx f \<and> frame_idx f \<le> e"
      "sorted (map frame_idx (GetFrames (car_track [11, 12, 13, 16])))"
    unfolding car_track_def by blast
  have "car_frame 13 None \<in> set (GetFrames (car_track [11, 12, 13, 16]))"
    by (simp add: GetFrames_def frames_car_track)
  with se(3) have mid: "s \<le> frame_idx (car_frame 13 None) \<and> frame_idx (car_frame 13 None) \<le> e"
    by blast
  have "GetStartTime (car_track [11, 12, 13, 16]) = Inr 11"
    by (simp add: GetStartTime_def frames_car_track car_frame_def TrackFrame_def)
  with se(1) have s: "s = 11" by simp
  have "GetEndTime (car_track [11, 12, 13, 16]) = Inr 16"
    by (simp add: GetEndTime_def frames_car_track car_frame_def TrackFrame_def)
  with se(2) have e: "e = 16" by simp
  show ?thesis
    using ordered nonempty se(1,2,4) s e mid by blast
qed

text \<open>
  C4, as the specification has it, fails: two calls in decreasing order of frame index
  leave a track whose start time 5 is above the stored frame index 3, whose end time is 3,
  and whose indices decrease.
\<close>

theorem AddFrames_unordered_counterexample:
  "GetStartTime (car_track [5, 3]) = Inr 5
   \<and> GetFrame (car_track [5, 3]) 1 = Inr (car_frame 3 None)
   \<and> frame_idx (car_frame 3 None) = 3
   \<and> \<not> (5::int) \<le> 3
   \<and> GetEndTime (car_track [5, 3]) = Inr 3
   \<and> \<not> sorted (map frame_idx (GetFrames (car_track [5, 3])))"
  by (simp add: GetStartTime_def GetEndTime_def GetFrame_def GetFrames_def frames_car_track
      car_frame_def TrackFrame_def)

section \<open>The first fusable frame\<close>











section \<open>The class name and its assertion\<close>

lemma GetClassName_assertion_holds: "GetClassName t \<noteq> Inl AssertionFailed"
  by (simp add: GetClassName_def string_literal_to_bool_def GetLastFrame_def)

text \<open>
  C3. On a track without frames, \<^verbatim>\<open>GetClassName()\<close> should stop at its assertion.
  It does not: the asserted condition is true for every track, so on \<^verbatim>\<open>Track(7)\<close>,
  which has no frame, the call goes on to \<^verbatim>\<open>frames_.back()\<close> of an empty vector.
\<close>

theorem GetClassName_empty_track:
  "GetSize (Track 7) = 0
   \<and> GetClassName (Track 7) = Inl UndefinedBehaviour
   \<and> GetClassName (Track 7) \<noteq> Inl AssertionFailed"
  by (simp add: GetSize_def GetClassName_def string_literal_to_bool_def GetLastFrame_def
      Track_def)

section \<open>Reaping the reconstruction\<close>

lemma third_as_quotient: "33 / 100 * (of_int n :: rat) = of_int (33 * n) / of_int 100"
  by simp

lemma double_to_int_third:
  "double_to_int (33 / 100 * of_int n) =
     (if 0 \<le> n then (33 * n) div 100 else - ((33 * (- n)) div 100))"
proof (cases "0 \<le> n")
  case True
  then have "(0::rat) \<le> 33 / 100 * of_int n" by simp
  then have "double_to_int (33 / 100 * of_int n) = \<lfloor>of_int (33 * n) / (of_int 100 :: rat)\<rfloor>"
    unfolding double_to_int_def third_as_quotient by simp
  also have "\<dots> = (33 * n) div 100"
    by (rule floor_divide_of_int_eq)
  finally show ?thesis using True by simp
next
  case False
  then have "\<not> (0::rat) \<le> 33 / 100 * of_int n" by (simp add: not_le mult_less_0_iff)
  then have "double_to_int (33 / 100 * of_int n) = \<lceil>33 / 100 * (of_int n :: rat)\<rceil>"
    by (simp add: double_to_int_def)
  also have "\<dots> = - \<lfloor>of_int (33 * (- n)) / (of_int 100 :: rat)\<rfloor>"
    by (simp add: ceiling_def)
  also have "\<dots> = - ((33 * (- n)) div 100)"
    by (simp only: floor_divide_of_int_eq)
  finally show ?thesis using False by simp
qed

lemma reap_weight_steps:
  "max 1 (min 5 (double_to_int (33 / 100 * of_int n))) =
     (if n \<le> 6 then 1 else if n \<le> 9 then 2 else if n \<le> 12 then 3
      else if n \<le> 15 then 4 else (5::int))"
  unfolding double_to_int_third by auto


lemma double_to_int_between:
  assumes "of_int k < x" and "x < of_int k + 1" and "0 \<le> k"
  shows "double_to_int x = k"
proof -
  from assms have "0 \<le> x" by (metis less_eq_rat_def of_int_0_le_iff order_trans)
  moreover from assms have "\<lfloor>x\<rfloor> = k" by (simp add: floor_eq_iff)
  ultimately show ?thesis by (simp add: double_to_int_def)
qed

lemma reap_weight_stable:
  fixes x :: rat
  assumes "\<bar>x - 33 / 100 * of_int n\<bar> < 1 / 100"
  shows "max 1 (min 5 (double_to_int x)) = max 1 (min 5 (double_to_int (33 / 100 * of_int n)))"
proof -
  have lo: "33 / 100 * of_int n - 1 / 100 < x" and hi: "x < 33 / 100 * of_int n + 1 / 100"
    using assms by linarith+
  consider "n \<le> 0" | "16 \<le> n" | "n \<in> {1..15}" by fastforce
  then show ?thesis
  proof cases
    case 1
    then have "(of_int n :: rat) \<le> 0" by simp
    with hi have "x < 1" by simp
    then have "double_to_int x \<le> 0"
      by (auto simp: double_to_int_def floor_le_iff ceiling_le_iff not_le)
    with 1 show ?thesis unfolding reap_weight_steps by simp
  next
    case 2
    then have "(16::rat) \<le> of_int n" by (metis of_int_le_iff of_int_numeral)
    with lo have x5: "5 \<le> x" by simp
    then have "5 \<le> double_to_int x"
      by (simp add: double_to_int_def le_floor_iff)
    with 2 show ?thesis unfolding reap_weight_steps by simp
  next
    case 3
    then have "n = 1 \<or> n = 2 \<or> n = 3 \<or> n = 4 \<or> n = 5 \<or> n = 6 \<or> n = 7 \<or> n = 8
      \<or> n = 9 \<or> n = 10 \<or> n = 11 \<or> n = 12 \<or> n = 13 \<or> n = 14 \<or> n = 15"
      by (simp add: atLeastAtMost_iff) arith
    then show ?thesis
      using lo hi unfolding reap_weight_steps
      by (elim disjE) (simp_all add: double_to_int_between [of 0]
          double_to_int_between [of 1] double_to_int_between [of 2]
          double_to_int_between [of 3] double_to_int_between [of 4])
  qed
qed

lemma double_product_near:
  fixes y :: rat
  assumes "\<bar>n\<bar> \<le> 2 ^ 31"
    and "\<bar>y - double_0_33 * of_int n\<bar> \<le> \<bar>double_0_33 * of_int n\<bar> / 2 ^ 53"
  shows "\<bar>y - 33 / 100 * of_int n\<bar> < 1 / 100"
proof -
  define r :: rat where "r = of_int n"
  have "\<bar>r\<bar> \<le> of_int (2 ^ 31)"
    unfolding r_def using assms(1) by (metis of_int_abs of_int_le_iff)
  then have r: "\<bar>r\<bar> \<le> 2147483648" by simp
  have "\<bar>y - double_0_33 * r\<bar> \<le> \<bar>double_0_33 * r\<bar> / 2 ^ 53"
    using assms(2) by (simp add: r_def)
  then have "\<bar>y - 5944751508129055 / 18014398509481984 * r\<bar>
      \<le> 5944751508129055 / 18014398509481984 * \<bar>r\<bar> / 9007199254740992"
    by (simp add: double_0_33_def abs_mult)
  with r have "\<bar>y - 33 / 100 * r\<bar> < 1 / 100"
    by linarith
  then show ?thesis by (simp add: r_def)
qed

lemma reap_weight_of_double:
  fixes y :: rat
  assumes "\<bar>n\<bar> \<le> 2 ^ 31"
    and "\<bar>y - double_0_33 * of_int n\<bar> \<le> \<bar>double_0_33 * of_int n\<bar> / 2 ^ 53"
  shows "max 1 (min 5 (double_to_int y)) = max 1 (min 5 (double_to_int (33 / 100 * of_int n)))"
  using double_product_near [OF assms] by (rule reap_weight_stable)

text \<open>
  C1, as the code has it. On a track that owns a volume, \<^verbatim>\<open>ReapReconstruction()\<close>
  calls \<^verbatim>\<open>Reap\<close> on that volume with the weight
  \<open>clamp(trunc(0.33 * fused_frames), 1, 5)\<close>, where \<open>trunc\<close> drops the fractional
  part, and changes nothing else. The weight is 1 up to 6 fused frames, 2 up to 9, 3 up to
  12, 4 up to 15 and 5 from 16 on: an integer from 1 to 5, equal to 1 for 0 and for 3 fused
  frames, and to 4 for 15.
\<close>

theorem ReapReconstruction_weight:
  assumes "reconstruction t = Some v"
  shows "\<exists>w. ReapReconstruction t = Inr (t\<lparr>reconstruction := Some (Reap w v)\<rparr>)
     \<and> w = max 1 (min 5 (double_to_int (33 / 100 * of_int (fused_frames t))))
     \<and> w = (if fused_frames t \<le> 6 then 1 else if fused_frames t \<le> 9 then 2
            else if fused_frames t \<le> 12 then 3 else if fused_frames t \<le> 15 then 4 else 5)
     \<and> 1 \<le> w \<and> w \<le> 5
     \<and> (fused_frames t = 0 \<longrightarrow> w = 1)
     \<and> (fused_frames t = 3 \<longrightarrow> w = 1)
     \<and> (fused_frames t = 15 \<longrightarrow> w = 4)"
proof -
  let ?w = "max 1 (min 5 (double_to_int (33 / 100 * of_int (fused_frames t))))"
  have call: "ReapReconstruction t = Inr (t\<lparr>reconstruction := Some (Reap ?w v)\<rparr>)"
    using assms by (simp add: ReapReconstruction_def Let_def)
  have steps: "?w = (if fused_frames t \<le> 6 then 1 else if fused_frames t \<le> 9 then 2
            else if fused_frames t \<le> 12 then 3 else if fused_frames t \<le> 15 then 4 else 5)"
    by (rule reap_weight_steps)
  have "1 \<le> ?w" and "?w \<le> 5" by simp_all
  moreover have "fused_frames t = 0 \<longrightarrow> ?w = 1" "fused_frames t = 3 \<longrightarrow> ?w = 1"
    "fused_frames t = 15 \<longrightarrow> ?w = 4"
    unfolding steps by simp_all
  ultimately show ?thesis
    using call steps by blast
qed

lemma ReapReconstruction_reconstructed_track:
  "ReapReconstruction (reconstructed_track n) =
     Inr ((reconstructed_track n)\<lparr>reconstruction :=
       Some \<lparr> reap_calls = [max 1 (min 5 (double_to_int (33 / 100 * of_int n)))] \<rparr>\<rparr>)"
  by (simp add: ReapReconstruction_def reconstructed_track_def Track_def Reap_def Let_def)

theorem ReapReconstruction_weight_witness:
  "reconstruction (reconstructed_track 15) = Some \<lparr> reap_calls = [] \<rparr>
   \<and> fused_frames (reconstructed_track 15) = 15
   \<and> ReapReconstruction (reconstructed_track 15) =
       Inr ((reconstructed_track 15)\<lparr>reconstruction := Some (Reap 4 \<lparr> reap_calls = [] \<rparr>)\<rparr>)"
proof -
  have r: "reconstruction (reconstructed_track 15) = Some \<lparr> reap_calls = [] \<rparr>"
    and n: "fused_frames (reconstructed_track 15) = 15"
    by (simp_all add: reconstructed_track_def)
  from ReapReconstruction_weight [OF r] n
  have "ReapReconstruction (reconstructed_track 15) =
       Inr ((reconstructed_track 15)\<lparr>reconstruction := Some (Reap 4 \<lparr> reap_calls = [] \<rparr>)\<rparr>)"
    by auto
  with r n show ?thesis by simp
qed

text \<open>
  C1, as the specification has it, fails at 15 fused frames: rounding 4.95 gives the
  weight 5, and the volume is reaped with 4.
\<close>

theorem ReapReconstruction_round_counterexample:
  "reap_weight_spec 15 = 5
   \<and> ReapReconstruction (reconstructed_track 15) =
       Inr ((reconstructed_track 15)\<lparr>reconstruction := Some \<lparr> reap_calls = [4] \<rparr>\<rparr>)
   \<and> ReapReconstruction (reconstructed_track 15) \<noteq>
       Inr ((reconstructed_track 15)\<lparr>reconstruction :=
         Some (Reap (reap_weight_spec 15) \<lparr> reap_calls = [] \<rparr>)\<rparr>)"
proof -
  have spec: "reap_weight_spec 15 = 5"
    by (simp add: reap_weight_spec_def round_def)
  have code: "max 1 (min 5 (double_to_int (33 / 100 * of_int 15))) = (4::int)"
    unfolding reap_weight_steps by simp
  have run: "ReapReconstruction (reconstructed_track 15) =
       Inr ((reconstructed_track 15)\<lparr>reconstruction := Some \<lparr> reap_calls = [4] \<rparr>\<rparr>)"
    unfolding ReapReconstruction_reconstructed_track code ..
  show ?thesis
    unfolding spec run by (simp add: Reap_def reconstructed_track_def Track_def)
qed

text \<open>
  C8, as the code has it. On a track that owns a volume, \<^verbatim>\<open>ReapReconstruction()\<close>
  reaches the volume through the handle and returns. On a track that owns none, nothing
  tests the handle: the call dereferences the null handle, which is undefined behaviour.
\<close>

theorem ReapReconstruction_handle:
  "(HasReconstruction t \<longrightarrow>
      (\<exists>v w. reconstruction t = Some v
         \<and> ReapReconstruction t = Inr (t\<lparr>reconstruction := Some (Reap w v)\<rparr>)))
   \<and> (\<not> HasReconstruction t \<longrightarrow> ReapReconstruction t = Inl UndefinedBehaviour)"
  by (cases "reconstruction t")
    (auto simp: HasReconstruction_def ReapReconstruction_def Let_def)

theorem ReapReconstruction_handle_witness:
  "HasReconstruction (reconstructed_track 3)
   \<and> (\<exists>v w. reconstruction (reconstructed_track 3) = Some v
         \<and> ReapReconstruction (reconstructed_track 3) =
             Inr ((reconstructed_track 3)\<lparr>reconstruction := Some (Reap w v)\<rparr>))
   \<and> \<not> HasReconstruction (Track 7)
   \<and> ReapReconstruction (Track 7) = Inl UndefinedBehaviour"
proof -
  have has: "HasReconstruction (reconstructed_track 3)"
    by (simp add: HasReconstruction_def reconstructed_track_def)
  have none: "\<not> HasReconstruction (Track 7)"
    by (simp add: HasReconstruction_def Track_def)
  note safe = ReapReconstruction_handle
    [of "reconstructed_track 3", THEN conjunct1, rule_format, OF has]
  note no_check = ReapReconstruction_handle
    [of "Track 7", THEN conjunct2, rule_format, OF none]
  show ?thesis
    using has none safe no_check by blast
qed

text \<open>
  C8, as the specification has it, fails on \<^verbatim>\<open>Track(7)\<close>, which owns no volume: the
  call does not end in a failed assertion.
\<close>

theorem ReapReconstruction_no_volume_counterexample:
  "HasReconstruction (Track 7) = False
   \<and> ReapReconstruction (Track 7) = Inl UndefinedBehaviour
   \<and> ReapReconstruction (Track 7) \<noteq> Inl AssertionFailed"
  by (simp add: HasReconstruction_def ReapReconstruction_def Track_def)

section \<open>The state machine of \<^verbatim>\<open>Update\<close>\<close>

lemma Updates_spec_Nil: "Updates_spec [] tc = tc"
  by (simp add: Updates_spec_def)

lemma Updates_spec_Cons: "Updates_spec (m # ms) tc = Updates_spec ms (Update_spec m tc)"
  by (simp add: Updates_spec_def)

lemma Updates_spec_snoc: "Updates_spec (ms @ [m]) tc = Update_spec m (Updates_spec ms tc)"
  by (simp add: Updates_spec_def)

lemma Update_spec_static_unavailable:
  assumes "track_state t = kStatic"
  shows "Update_spec Unavailable (t, c) =
    (if c + 1 > kMaxUncertainFramesStatic t then (t\<lparr>track_state := kUncertain\<rparr>, c + 1)
     else (t, c + 1))"
  using assms by (simp add: Update_spec_def)

lemma Updates_spec_static_tolerated:
  assumes "track_state t = kStatic" and "c + int n \<le> kMaxUncertainFramesStatic t"
  shows "Updates_spec (replicate n Unavailable) (t, c) = (t, c + int n)"
  using assms(2)
proof (induction n arbitrary: c)
  case 0
  show ?case by (simp add: Updates_spec_Nil)
next
  case (Suc n)
  then have "c + 1 + int n \<le> kMaxUncertainFramesStatic t" by simp
  from Suc.IH [OF this] Suc.prems show ?case
    by (simp add: Updates_spec_Cons Update_spec_static_unavailable [OF assms(1)])
qed

lemma Updates_spec_static_reverts:
  assumes "track_state t = kStatic" and "c + int n = kMaxUncertainFramesStatic t"
  shows "Updates_spec (replicate (Suc n) Unavailable) (t, c) =
    (t\<lparr>track_state := kUncertain\<rparr>, kMaxUncertainFramesStatic t + 1)"
proof -
  have "replicate (Suc n) Unavailable = replicate n Unavailable @ [Unavailable]"
    by (simp add: replicate_append_same)
  then have "Updates_spec (replicate (Suc n) Unavailable) (t, c) =
    Update_spec Unavailable (Updates_spec (replicate n Unavailable) (t, c))"
    by (simp only: Updates_spec_snoc)
  also have "\<dots> = Update_spec Unavailable (t, c + int n)"
    using assms by (simp add: Updates_spec_static_tolerated)
  also have "\<dots> = (t\<lparr>track_state := kUncertain\<rparr>, kMaxUncertainFramesStatic t + 1)"
    using assms by (simp add: Update_spec_static_unavailable)
  finally show ?thesis .
qed

lemma Update_spec_available_restarts:
  "track_state (fst (Update_spec (Residual magnitude) (t, c))) \<noteq> kUncertain
     \<Longrightarrow> snd (Update_spec (Residual magnitude) (t, c)) = 0"
  by (cases "track_state t") (simp_all add: Update_spec_def split: if_splits)

text \<open>
  C6. A track in state \<open>Static\<close> whose uncertain-frame counter is 0 stays \<open>Static\<close>
  through as many consecutive updates with unavailable relative pose as
  \<open>kMaxUncertainFramesStatic\<close> allows, and is \<open>Uncertain\<close> after one more: with the
  default 3, it is still \<open>Static\<close> after the third and \<open>Uncertain\<close> after the fourth.
  A track in state \<open>Uncertain\<close> is \<open>Static\<close> after one update whose residual
  translation is below the threshold, with the counter at 0.
\<close>

theorem Update_spec_hysteresis:
  "(track_state t = kStatic \<and> 0 \<le> kMaxUncertainFramesStatic t \<longrightarrow>
      (\<forall>n \<le> nat (kMaxUncertainFramesStatic t).
         GetState (fst (Updates_spec (replicate n Unavailable) (t, 0))) = kStatic)
      \<and> GetState (fst (Updates_spec
           (replicate (nat (kMaxUncertainFramesStatic t) + 1) Unavailable) (t, 0))) = kUncertain)
   \<and> (track_state t = kStatic \<and> kMaxUncertainFramesStatic t = 3 \<longrightarrow>
      GetState (fst (Updates_spec (replicate 3 Unavailable) (t, 0))) = kStatic
      \<and> GetState (fst (Updates_spec (replicate 4 Unavailable) (t, 0))) = kUncertain)
   \<and> (track_state t = kUncertain \<and> magnitude < kTransErrorTreshold t \<longrightarrow>
      GetState (fst (Update_spec (Residual magnitude) (t, c))) = kStatic
      \<and> snd (Update_spec (Residual magnitude) (t, c)) = 0)"
proof (intro conjI impI allI)
  fix n
  assume h: "track_state t = kStatic \<and> 0 \<le> kMaxUncertainFramesStatic t"
    and n: "n \<le> nat (kMaxUncertainFramesStatic t)"
  then have "0 + int n \<le> kMaxUncertainFramesStatic t" by linarith
  with h show "GetState (fst (Updates_spec (replicate n Unavailable) (t, 0))) = kStatic"
    by (simp add: Updates_spec_static_tolerated GetState_def)
next
  assume h: "track_state t = kStatic \<and> 0 \<le> kMaxUncertainFramesStatic t"
  then have "0 + int (nat (kMaxUncertainFramesStatic t)) = kMaxUncertainFramesStatic t" by simp
  with h have "Updates_spec (replicate (Suc (nat (kMaxUncertainFramesStatic t))) Unavailable) (t, 0)
    = (t\<lparr>track_state := kUncertain\<rparr>, kMaxUncertainFramesStatic t + 1)"
    by (intro Updates_spec_static_reverts) simp_all
  then show "GetState (fst (Updates_spec
      (replicate (nat (kMaxUncertainFramesStatic t) + 1) Unavailable) (t, 0))) = kUncertain"
    by (simp add: GetState_def)
next
  assume h: "track_state t = kStatic \<and> kMaxUncertainFramesStatic t = 3"
  then have "0 + int 3 \<le> kMaxUncertainFramesStatic t" by simp
  with h show "GetState (fst (Updates_spec (replicate 3 Unavailable) (t, 0))) = kStatic"
    by (simp only: Updates_spec_static_tolerated GetState_def fst_conv)
next
  assume h: "track_state t = kStatic \<and> kMaxUncertainFramesStatic t = 3"
  then have "0 + int 3 = kMaxUncertainFramesStatic t" by simp
  with h have "Updates_spec (replicate (Suc 3) Unavailable) (t, 0)
    = (t\<lparr>track_state := kUncertain\<rparr>, kMaxUncertainFramesStatic t + 1)"
    by (intro Updates_spec_static_reverts) simp_all
  moreover have "Suc 3 = 4" by simp
  ultimately show "GetState (fst (Updates_spec (replicate 4 Unavailable) (t, 0))) = kUncertain"
    by (simp add: GetState_def)
next
  assume "track_state t = kUncertain \<and> magnitude < kTransErrorTreshold t"
  then show "GetState (fst (Update_spec (Residual magnitude) (t, c))) = kStatic"
    by (simp add: Update_spec_def GetState_def)
next
  assume "track_state t = kUncertain \<and> magnitude < kTransErrorTreshold t"
  then show "snd (Update_spec (Residual magnitude) (t, c)) = 0"
    by (simp add: Update_spec_def)
qed


theorem Update_spec_hysteresis_witness:
  "track_state (Track 7) = kUncertain
   \<and> 1 / 20 < kTransErrorTreshold (Track 7)
   \<and> Update_spec (Residual (1 / 20)) (Track 7, 0) = ((Track 7)\<lparr>track_state := kStatic\<rparr>, 0)
   \<and> track_state ((Track 7)\<lparr>track_state := kStatic\<rparr>) = kStatic
   \<and> kMaxUncertainFramesStatic ((Track 7)\<lparr>track_state := kStatic\<rparr>) = 3
   \<and> GetState (fst (Updates_spec (Residual (1 / 20) # replicate 3 Unavailable) (Track 7, 0)))
       = kStatic
   \<and> GetState (fst (Updates_spec (Residual (1 / 20) # replicate 4 Unavailable) (Track 7, 0)))
       = kUncertain"
proof -
  let ?s = "(Track 7)\<lparr>track_state := kStatic\<rparr>"
  have u: "track_state (Track 7) = kUncertain" and m: "1 / 20 < kTransErrorTreshold (Track 7)"
    by (simp_all add: Track_def)
  have s: "track_state ?s = kStatic" and k: "kMaxUncertainFramesStatic ?s = 3"
    by (simp_all add: Track_def)
  from Update_spec_hysteresis [of "Track 7" "1 / 20" 0] u m
  have first: "GetState (fst (Update_spec (Residual (1 / 20)) (Track 7, 0))) = kStatic"
    "snd (Update_spec (Residual (1 / 20)) (Track 7, 0)) = 0"
    by blast+
  have step: "Update_spec (Residual (1 / 20)) (Track 7, 0) = (?s, 0)"
    using u m by (simp add: Update_spec_def)
  from Update_spec_hysteresis [of ?s 0 0] s k
  have run: "GetState (fst (Updates_spec (replicate 3 Unavailable) (?s, 0))) = kStatic"
    "GetState (fst (Updates_spec (replicate 4 Unavailable) (?s, 0))) = kUncertain"
    by blast+
  show ?thesis
    using u m s k run unfolding Updates_spec_Cons step by blast
qed

section \<open>The pose of a frame relative to the first\<close>

lemma compose_chain_gap: "None \<in> set links \<Longrightarrow> compose_chain pose links = None"
proof (induction links arbitrary: pose)
  case Nil
  then show ?case by simp
next
  case (Cons link links)
  then show ?case by (cases link) auto
qed

lemma compose_chain_complete: "None \<notin> set links \<Longrightarrow> compose_chain pose links \<noteq> None"
proof (induction links arbitrary: pose)
  case Nil
  then show ?case by simp
next
  case (Cons link links)
  then show ?case by (cases link) auto
qed

lemma GetFramePose_spec_complete_chain:
  assumes "k < length (frames t)"
    and "\<forall>j. 1 \<le> j \<and> j \<le> k \<longrightarrow> IsPresent (known_relative_pose (frames t ! j))"
  shows "GetFramePose_spec t k \<noteq> None"
proof -
  have "None \<notin> set (map known_relative_pose (take k (tl (frames t))))"
  proof
    assume "None \<in> set (map known_relative_pose (take k (tl (frames t))))"
    then obtain i where i: "i < length (take k (tl (frames t)))"
      "known_relative_pose (take k (tl (frames t)) ! i) = None"
      by (auto simp: in_set_conv_nth)
    then have "i < k" and "Suc i < length (frames t)" by auto
    with i have "known_relative_pose (frames t ! Suc i) = None"
      by (simp add: nth_tl)
    moreover have "IsPresent (known_relative_pose (frames t ! Suc i))"
      using assms(2) \<open>i < k\<close> by simp
    ultimately show False by (simp add: IsPresent_def)
  qed
  with assms(1) show ?thesis
    by (simp add: GetFramePose_spec_def compose_chain_complete del: set_map)
qed

text \<open>
  C7. \<^verbatim>\<open>GetFramePose(k)\<close> is absent as soon as one relative pose of the chain from
  the first frame to frame \<open>k\<close> is absent, whatever the later ones are (a frame whose
  pointer is unset has no relative pose either); in the second theorem the link at
  position 2 is missing and those at positions 3 and 4 are present.
\<close>

theorem GetFramePose_spec_broken_chain:
  assumes "k < length (frames t)" and "1 \<le> j" and "j \<le> k"
    and "\<not> IsPresent (known_relative_pose (frames t ! j))"
  shows "GetFramePose_spec t k = None"
proof -
  from assms obtain i where j: "j = Suc i" by (cases j) simp_all
  with assms have i: "i < length (take k (tl (frames t)))" by simp
  have "take k (tl (frames t)) ! i = frames t ! j"
    using assms j by (simp add: nth_tl)
  with assms(4) have "known_relative_pose (take k (tl (frames t)) ! i) = None"
    by (simp add: IsPresent_def split: option.splits)
  with i have "None \<in> set (map known_relative_pose (take k (tl (frames t))))"
    by (metis length_map nth_map nth_mem)
  then have "compose_chain identity4 (map known_relative_pose (take k (tl (frames t)))) = None"
    by (rule compose_chain_gap)
  then show ?thesis by (simp add: GetFramePose_spec_def)
qed

theorem GetFramePose_spec_broken_chain_witness:
  "(4::nat) < length (frames (posed_track
       [None, Some identity4, None, Some identity4, Some identity4]))
   \<and> (1::nat) \<le> 2 \<and> (2::nat) \<le> 4
   \<and> \<not> IsPresent (known_relative_pose (frames (posed_track
       [None, Some identity4, None, Some identity4, Some identity4]) ! 2))
   \<and> IsPresent (known_relative_pose (frames (posed_track
       [None, Some identity4, None, Some identity4, Some identity4]) ! 3))
   \<and> IsPresent (known_relative_pose (frames (posed_track
       [None, Some identity4, None, Some identity4, Some identity4]) ! 4))
   \<and> GetFramePose_spec (posed_track
       [None, Some identity4, None, Some identity4, Some identity4]) 4 = None
   \<and> GetFramePose_spec (posed_track
       [None, Some identity4, None, Some identity4, Some identity4]) 1 = Some identity4"
proof -
  let ?t = "posed_track [None, Some identity4, None, Some identity4, Some identity4]"
  have f: "frames ?t = [car_frame 0 None, car_frame 1 (Some identity4), car_frame 2 None,
      car_frame 3 (Some identity4), car_frame 4 (Some identity4)]"
    by (simp add: frames_posed_track)
  have h: "(4::nat) < length (frames ?t)" "(1::nat) \<le> 2" "(2::nat) \<le> 4"
    "\<not> IsPresent (known_relative_pose (frames ?t ! 2))"
    by (simp_all add: f car_frame_def TrackFrame_def known_relative_pose_def IsPresent_def)
  have later: "IsPresent (known_relative_pose (frames ?t ! 3))" "IsPresent (known_relative_pose (frames ?t ! 4))"
    by (simp_all add: f car_frame_def TrackFrame_def known_relative_pose_def IsPresent_def)
  have "mat_mul identity4 identity4 = identity4"
    by code_simp
  then have one: "GetFramePose_spec ?t 1 = Some identity4"
    by (simp add: GetFramePose_spec_def f car_frame_def TrackFrame_def known_relative_pose_def)
  show ?thesis
    using h later one GetFramePose_spec_broken_chain [OF h] by simp
qed

end
